theory Spec2Isabelle
  imports Complex_Main "HOL-Library.Sublist" "HOL-Library.Multiset"
begin

section \<open>Python values as they reach build\_temp\_cache.py\<close>

text \<open>
  The script works on what \<^verbatim>\<open>json.loads\<close> returns: None, bool, int, float, str, list and
  dict. A str is a list of characters, one \<^typ>\<open>char\<close> per code point (code points above
  255 are outside the model). A float is given by its exact value; the rounding that
  \<^verbatim>\<open>float()\<close> applies to a decimal string (to the nearest binary64 number, to an infinity
  on overflow) and the sign of zero are not represented. A dict is the list of its items
  in insertion order; \<^verbatim>\<open>json.loads\<close> yields dicts whose keys are distinct.
\<close>

datatype pyfloat = Finite rat | PosInf | NegInf | NaN

datatype json =
    JNull
  | JBool bool
  | JInt int
  | JFloat pyfloat
  | JStr string
  | JArr "json list"
  | JObj "(string \<times> json) list"

text \<open>The exceptions the script can meet. All of them are subclasses of Exception.\<close>

datatype error =
    RuntimeError string
  | AttributeError
  | TypeError
  | KeyError
  | IndexError
  | ValueError
  | OverflowError
  | JSONDecodeError string
  | URLError string
  | HTTPError nat

text \<open>Truth value testing: \<^verbatim>\<open>not x\<close>, \<^verbatim>\<open>x or y\<close>, \<^verbatim>\<open>if x\<close>.\<close>

fun truthy :: "json \<Rightarrow> bool" where
  "truthy JNull = False"
| "truthy (JBool b) = b"
| "truthy (JInt n) = (n \<noteq> 0)"
| "truthy (JFloat f) = (f \<noteq> Finite 0)"
| "truthy (JStr s) = (s \<noteq> [])"
| "truthy (JArr xs) = (xs \<noteq> [])"
| "truthy (JObj kvs) = (kvs \<noteq> [])"

definition py_or :: "json \<Rightarrow> json \<Rightarrow> json" where
  "py_or a b = (if truthy a then a else b)"

text \<open>\<^verbatim>\<open>d.get(k)\<close> on a dict: the value, or None when the key is absent.\<close>

definition py_get :: "(string \<times> json) list \<Rightarrow> string \<Rightarrow> json" where
  "py_get kvs k = (case map_of kvs k of None \<Rightarrow> JNull | Some v \<Rightarrow> v)"

text \<open>\<^verbatim>\<open>d.get(k, default)\<close> on a dict.\<close>

definition py_get_default :: "(string \<times> json) list \<Rightarrow> string \<Rightarrow> json \<Rightarrow> json" where
  "py_get_default kvs k d = (case map_of kvs k of None \<Rightarrow> d | Some v \<Rightarrow> v)"

text \<open>\<^verbatim>\<open>x.get(k)\<close> on any value: only a dict has the method.\<close>

fun dot_get :: "json \<Rightarrow> string \<Rightarrow> error + json" where
  "dot_get (JObj kvs) k = Inr (py_get kvs k)"
| "dot_get _ k = Inl AttributeError"

text \<open>
  \<^verbatim>\<open>x[0]\<close>: the first element of a list, the first character of a str; on a dict it is
  a lookup of the key 0, which no dict parsed from JSON has.
\<close>

fun index0 :: "json \<Rightarrow> error + json" where
  "index0 (JArr []) = Inl IndexError"
| "index0 (JArr (x # xs)) = Inr x"
| "index0 (JStr []) = Inl IndexError"
| "index0 (JStr (c # cs)) = Inr (JStr [c])"
| "index0 (JObj kvs) = Inl KeyError"
| "index0 _ = Inl TypeError"

text \<open>
  \<^verbatim>\<open>for v in x\<close>: the elements of a list, the keys of a dict, the characters of a str.
\<close>

fun py_iter :: "json \<Rightarrow> error + json list" where
  "py_iter (JArr xs) = Inr xs"
| "py_iter (JObj kvs) = Inr (map (\<lambda>kv. JStr (fst kv)) kvs)"
| "py_iter (JStr s) = Inr (map (\<lambda>c. JStr [c]) s)"
| "py_iter _ = Inl TypeError"

text \<open>
  \<^verbatim>\<open>x[:10]\<close>: a str and a list are sliced, and a slice never fails on a short sequence;
  nothing else that JSON yields can be sliced.
\<close>

fun slice10 :: "json \<Rightarrow> error + json" where
  "slice10 (JStr s) = Inr (JStr (take 10 s))"
| "slice10 (JArr xs) = Inr (JArr (take 10 xs))"
| "slice10 _ = Inl TypeError"

section \<open>Strings: find, strip, endswith\<close>

text \<open>\<^verbatim>\<open>str.isspace\<close> on the code points below 256.\<close>

definition is_space :: "char \<Rightarrow> bool" where
  "is_space c = (c \<in> set [CHR 0x09, CHR 0x0A, CHR 0x0B, CHR 0x0C, CHR 0x0D,
      CHR 0x1C, CHR 0x1D, CHR 0x1E, CHR 0x1F, CHR 0x20, CHR 0x85, CHR 0xA0])"

definition strip :: "string \<Rightarrow> string" where
  "strip s = rev (dropWhile is_space (rev (dropWhile is_space s)))"

text \<open>\<^verbatim>\<open>text.find(p)\<close>: the lowest index at which p occurs; None stands for -1.\<close>

fun str_find :: "string \<Rightarrow> string \<Rightarrow> nat option" where
  "str_find [] p = (if p = [] then Some 0 else None)"
| "str_find (c # cs) p =
     (if prefix p (c # cs) then Some 0 else map_option Suc (str_find cs p))"

definition endswith :: "string \<Rightarrow> string \<Rightarrow> bool" where
  "endswith s p = suffix p s"

section \<open>float()\<close>

definition is_digit :: "char \<Rightarrow> bool" where
  "is_digit c = (c \<in> set ''0123456789'')"

definition digit_val :: "char \<Rightarrow> nat" where
  "digit_val c = of_char c - 48"

definition digits_val :: "string \<Rightarrow> nat" where
  "digits_val s = foldl (\<lambda>a c. 10 * a + digit_val c) 0 s"

text \<open>
  An underscore is allowed between two digits only. The flag tells whether the
  character before is a digit.
\<close>

fun underscores_ok :: "bool \<Rightarrow> string \<Rightarrow> bool" where
  "underscores_ok p [] = True"
| "underscores_ok p (c # cs) =
     (if c = CHR ''_''
      then p \<and> (case cs of [] \<Rightarrow> False | d # _ \<Rightarrow> is_digit d) \<and> underscores_ok False cs
      else underscores_ok (is_digit c) cs)"

definition lower_char :: "char \<Rightarrow> char" where
  "lower_char c = (let n = (of_char c :: nat) in
     if 65 \<le> n \<and> n \<le> 90 then char_of (n + 32) else c)"

text \<open>The exponent part: nothing, or e or E, an optional sign and at least one digit.\<close>

definition parse_exponent :: "string \<Rightarrow> int option" where
  "parse_exponent s =
     (case s of
        [] \<Rightarrow> Some 0
      | c # r \<Rightarrow>
          if c = CHR ''e'' \<or> c = CHR ''E'' then
            (let neg = (case r of [] \<Rightarrow> False | d # _ \<Rightarrow> d = CHR ''-'');
                 ds = (case r of [] \<Rightarrow> []
                       | d # r' \<Rightarrow> if d = CHR ''-'' \<or> d = CHR ''+'' then r' else r)
             in if ds \<noteq> [] \<and> list_all is_digit ds
                then Some (if neg then - int (digits_val ds) else int (digits_val ds))
                else None)
          else None)"

definition scale10 :: "rat \<Rightarrow> int \<Rightarrow> rat" where
  "scale10 m e = (if 0 \<le> e then m * 10 ^ nat e else m / 10 ^ nat (- e))"

text \<open>
  An unsigned decimal: digits, an optional point, digits (at least one digit in all),
  and an exponent part.
\<close>

definition parse_decimal :: "string \<Rightarrow> rat option" where
  "parse_decimal s =
     (let ip = takeWhile is_digit s;
          r1 = dropWhile is_digit s;
          has_point = (case r1 of [] \<Rightarrow> False | c # _ \<Rightarrow> c = CHR ''.'');
          fp = (if has_point then takeWhile is_digit (tl r1) else []);
          r2 = (if has_point then dropWhile is_digit (tl r1) else r1)
      in if ip = [] \<and> fp = [] then None
         else (case parse_exponent r2 of
                 None \<Rightarrow> None
               | Some e \<Rightarrow> Some (scale10 (of_nat (digits_val (ip @ fp))) (e - int (length fp)))))"

text \<open>
  \<^verbatim>\<open>float(s)\<close> on a str: surrounding whitespace is dropped, underscores between digits
  are dropped, then a sign and inf, infinity or nan (in any case) or a decimal follow.
  Anything else is a ValueError.
\<close>

definition float_of_str :: "string \<Rightarrow> error + pyfloat" where
  "float_of_str s =
     (let t = strip s in
      if \<not> underscores_ok False t then Inl ValueError
      else
        (let u = filter (\<lambda>c. c \<noteq> CHR ''_'') t;
             neg = (case u of [] \<Rightarrow> False | c # _ \<Rightarrow> c = CHR ''-'');
             body = (case u of [] \<Rightarrow> []
                     | c # r \<Rightarrow> if c = CHR ''-'' \<or> c = CHR ''+'' then r else u);
             low = map lower_char body
         in if low = ''inf'' \<or> low = ''infinity'' then Inr (if neg then NegInf else PosInf)
            else if low = ''nan'' then Inr NaN
            else (case parse_decimal body of
                    None \<Rightarrow> Inl ValueError
                  | Some q \<Rightarrow> Inr (Finite (if neg then - q else q)))))"

text \<open>
  \<^verbatim>\<open>float(x)\<close> on any value: an int too large for a binary64 number is an
  OverflowError, a list, a dict or None a TypeError.
\<close>

fun py_float :: "json \<Rightarrow> error + pyfloat" where
  "py_float (JStr s) = float_of_str s"
| "py_float (JFloat f) = Inr f"
| "py_float (JInt n) =
     (if \<bar>n\<bar> < 2 ^ 1024 - 2 ^ 970 then Inr (Finite (of_int n)) else Inl OverflowError)"
| "py_float (JBool b) = Inr (Finite (if b then 1 else 0))"
| "py_float _ = Inl TypeError"

section \<open>load\_stations\<close>

text \<open>
  The function reads the stations file, finds the marker, strips the text after it, drops
  one trailing semicolon and hands the rest to \<^verbatim>\<open>json.loads\<close>. The model takes the
  text of the file; \<^verbatim>\<open>json.loads\<close> is the parameter \<open>loads\<close>.
\<close>

definition marker :: string where
  "marker = ''var stationData =''"

definition load_stations :: "(string \<Rightarrow> error + json) \<Rightarrow> string \<Rightarrow> error + json" where
  "load_stations loads text =
     (case str_find text marker of
        None \<Rightarrow>
          Inl (RuntimeError ''Could not find 'var stationData =' in multi_state_stations.js'')
      | Some idx \<Rightarrow>
          (let s = strip (drop (idx + length marker) text);
               s' = (if endswith s '';'' then strip (butlast s) else s)
           in loads s'))"

section \<open>fetch\_dv\<close>

text \<open>
  The request: \<^verbatim>\<open>urlopen\<close>, \<^verbatim>\<open>read\<close>, \<^verbatim>\<open>decode\<close> and \<^verbatim>\<open>json.loads\<close> on a URL built
  from the site and the two dates. The remote service is a parameter: given the number of
  requests made before this one and the three values that make up the URL, it yields
  the decoded body or the exception raised on the way.
\<close>

type_synonym remote = "nat \<Rightarrow> json \<Rightarrow> json \<Rightarrow> json \<Rightarrow> error + json"

type_synonym series = "json list \<times> pyfloat list"

text \<open>
  The loop over the observations (lines 47 to 58). The label is appended before the
  value is converted; a ValueError of the conversion is caught, any other exception
  leaves the function.
\<close>

fun fetch_dv_loop :: "json list \<Rightarrow> json list \<Rightarrow> pyfloat list \<Rightarrow> error + series" where
  "fetch_dv_loop [] labels temps = Inr (labels, temps)"
| "fetch_dv_loop (v # vs) labels temps =
     (if \<not> truthy v then fetch_dv_loop vs labels temps
      else
        (case v of
           JObj kvs \<Rightarrow>
             (let val = py_get kvs ''value'' in
              if val = JNull \<or> val = JStr [] \<or> val = JStr '' ''
              then fetch_dv_loop vs labels temps
              else
                (case slice10 (py_get_default kvs ''dateTime'' (JStr [])) of
                   Inl e \<Rightarrow> Inl e
                 | Inr label \<Rightarrow>
                     (case py_float val of
                        Inr x \<Rightarrow> fetch_dv_loop vs (labels @ [label]) (temps @ [x])
                      | Inl ValueError \<Rightarrow> fetch_dv_loop vs (labels @ [label]) temps
                      | Inl e \<Rightarrow> Inl e)))
         | _ \<Rightarrow> Inl AttributeError))"

text \<open>Lines 41 to 60: the walk through the decoded body.\<close>

definition fetch_dv_extract :: "json \<Rightarrow> error + series" where
  "fetch_dv_extract data =
     (case dot_get data ''value'' of
        Inl e \<Rightarrow> Inl e
      | Inr v \<Rightarrow>
     (case dot_get (py_or v (JObj [])) ''timeSeries'' of
        Inl e \<Rightarrow> Inl e
      | Inr t \<Rightarrow>
     (let ts_arr = py_or t (JArr []) in
      if \<not> truthy ts_arr then Inr ([], [])
      else
     (case index0 ts_arr of
        Inl e \<Rightarrow> Inl e
      | Inr ts0 \<Rightarrow>
     (case dot_get ts0 ''values'' of
        Inl e \<Rightarrow> Inl e
      | Inr vs \<Rightarrow>
      if \<not> truthy vs then Inr ([], [])
      else
     (case index0 vs of
        Inl e \<Rightarrow> Inl e
      | Inr v0 \<Rightarrow>
     (case dot_get v0 ''value'' of
        Inl e \<Rightarrow> Inl e
      | Inr vv \<Rightarrow>
     (case py_iter (py_or vv (JArr [])) of
        Inl e \<Rightarrow> Inl e
      | Inr vals \<Rightarrow> fetch_dv_loop vals [] []))))))))"

definition fetch_dv :: "remote \<Rightarrow> nat \<Rightarrow> json \<Rightarrow> json \<Rightarrow> json \<Rightarrow> error + series" where
  "fetch_dv rem n site_no start end' =
     (case rem n site_no start end' of
        Inl e \<Rightarrow> Inl e
      | Inr data \<Rightarrow> fetch_dv_extract data)"

section \<open>The cache dict\<close>

text \<open>
  Keys of a dict are compared with \<^verbatim>\<open>==\<close>: a bool, an int and a float of the same value
  are one key, a nan equals nothing. A list or a dict cannot be a key.
\<close>

fun hashable :: "json \<Rightarrow> bool" where
  "hashable (JArr xs) = False"
| "hashable (JObj kvs) = False"
| "hashable _ = True"

fun num_key :: "json \<Rightarrow> pyfloat option" where
  "num_key (JBool b) = Some (Finite (if b then 1 else 0))"
| "num_key (JInt n) = Some (Finite (of_int n))"
| "num_key (JFloat f) = Some f"
| "num_key _ = None"

definition key_eq :: "json \<Rightarrow> json \<Rightarrow> bool" where
  "key_eq a b =
     (case (num_key a, num_key b) of
        (Some x, Some y) \<Rightarrow> x = y \<and> x \<noteq> NaN
      | (None, None) \<Rightarrow> a = b
      | _ \<Rightarrow> False)"

text \<open>
  \<^verbatim>\<open>d[k] = v\<close>: the value of an equal key is replaced where it stands, a new key goes to
  the end.
\<close>

fun dict_update :: "(json \<times> 'v) list \<Rightarrow> json \<Rightarrow> 'v \<Rightarrow> (json \<times> 'v) list" where
  "dict_update [] k v = [(k, v)]"
| "dict_update ((k', v') # kvs) k v =
     (if key_eq k' k then (k', v) # kvs else (k', v') # dict_update kvs k v)"

definition dict_setitem :: "(json \<times> 'v) list \<Rightarrow> json \<Rightarrow> 'v \<Rightarrow> error + (json \<times> 'v) list" where
  "dict_setitem d k v = (if hashable k then Inr (dict_update d k v) else Inl TypeError)"

section \<open>main\<close>

text \<open>
  What the run accumulates: the cache, the list of sites without data, the lines
  printed to stderr (the values each line is formatted from), the number of requests
  made and the number of pauses taken.
\<close>

datatype log_line =
    Fetching json json json
  | ErrorFor json error
  | Wrote nat nat

record state =
  cache :: "(json \<times> series) list"
  no_dv :: "json list"
  stderr :: "log_line list"
  requests :: nat
  sleeps :: nat

definition init_state :: state where
  "init_state = \<lparr>cache = [], no_dv = [], stderr = [], requests = 0, sleeps = 0\<rparr>"

text \<open>
  One turn of the loop over the stations (lines 69 to 95). An exception of
  \<^verbatim>\<open>fetch_dv\<close> is caught and printed; an exception anywhere else ends the run.
\<close>

definition process_station :: "remote \<Rightarrow> state \<Rightarrow> json \<Rightarrow> error + state" where
  "process_station rem st s =
     (case s of
        JObj kvs \<Rightarrow>
          (let site = py_get kvs ''site_no'' in
           if \<not> truthy site then Inr st
           else if \<not> truthy (py_get kvs ''temp_begin'') \<or> \<not> truthy (py_get kvs ''temp_end'')
           then Inr st
           else if py_get kvs ''lat'' = JNull \<or> py_get kvs ''lon'' = JNull then Inr st
           else
             (let start = py_get kvs ''temp_begin'';
                  end' = py_get kvs ''temp_end''
              in if \<not> truthy start \<or> \<not> truthy end' then Inr st
                 else
                   (let st1 = st\<lparr>stderr := stderr st @ [Fetching site start end'],
                                  requests := Suc (requests st)\<rparr>
                    in case fetch_dv rem (requests st) site start end' of
                         Inl e \<Rightarrow> Inr (st1\<lparr>stderr := stderr st1 @ [ErrorFor site e]\<rparr>)
                       | Inr (labels, temps) \<Rightarrow>
                           if labels \<noteq> []
                           then (case dict_setitem (cache st1) site (labels, temps) of
                                   Inl e \<Rightarrow> Inl e
                                 | Inr c \<Rightarrow> Inr (st1\<lparr>cache := c, sleeps := Suc (sleeps st1)\<rparr>))
                           else Inr (st1\<lparr>no_dv := no_dv st1 @ [site],
                                          sleeps := Suc (sleeps st1)\<rparr>))))
      | _ \<Rightarrow> Inl AttributeError)"

fun main_loop :: "remote \<Rightarrow> state \<Rightarrow> json list \<Rightarrow> error + state" where
  "main_loop rem st [] = Inr st"
| "main_loop rem st (s # ss) =
     (case process_station rem st s of
        Inl e \<Rightarrow> Inl e
      | Inr st' \<Rightarrow> main_loop rem st' ss)"

text \<open>
  The whole run on the text of the stations file. The output file holds the cache and
  the list of sites without data of the final state; the last line printed counts both.
\<close>

definition main :: "(string \<Rightarrow> error + json) \<Rightarrow> remote \<Rightarrow> string \<Rightarrow> error + state" where
  "main loads rem text =
     (case load_stations loads text of
        Inl e \<Rightarrow> Inl e
      | Inr stations \<Rightarrow>
     (case py_iter stations of
        Inl e \<Rightarrow> Inl e
      | Inr ss \<Rightarrow>
     (case main_loop rem init_state ss of
        Inl e \<Rightarrow> Inl e
      | Inr st \<Rightarrow>
          Inr (st\<lparr>stderr := stderr st @ [Wrote (length (cache st)) (length (no_dv st))]\<rparr>))))"

section \<open>Notions of the specification\<close>

text \<open>
  A field of a station record is missing when the key is absent or its value is null.
\<close>

definition missing :: "(string \<times> json) list \<Rightarrow> string \<Rightarrow> bool" where
  "missing kvs k = (map_of kvs k = None \<or> map_of kvs k = Some JNull)"

text \<open>
  The eligibility filter as the specification words it: a non-empty identifier, a begin
  and an end date that are truthy, a latitude and a longitude that are present.
\<close>

definition eligible :: "(string \<times> json) list \<Rightarrow> bool" where
  "eligible kvs =
     (truthy (py_get kvs ''site_no'') \<and> truthy (py_get kvs ''temp_begin'')
      \<and> truthy (py_get kvs ''temp_end'') \<and> py_get kvs ''lat'' \<noteq> JNull
      \<and> py_get kvs ''lon'' \<noteq> JNull)"

text \<open>The identifiers of the eligible stations of a list, in order.\<close>

definition eligible_sites :: "json list \<Rightarrow> json list" where
  "eligible_sites ss =
     concat (map (\<lambda>s. case s of
                         JObj kvs \<Rightarrow> if eligible kvs then [py_get kvs ''site_no''] else []
                       | _ \<Rightarrow> []) ss)"

text \<open>
  An observation whose value is a str that the script does not skip and that
  \<^verbatim>\<open>float()\<close> rejects, and whose dateTime is a str.
\<close>

definition unparsable_observation :: "json \<Rightarrow> bool" where
  "unparsable_observation v =
     (case v of
        JObj kvs \<Rightarrow>
          (case (py_get kvs ''value'', map_of kvs ''dateTime'') of
             (JStr x, Some (JStr d)) \<Rightarrow>
               x \<noteq> [] \<and> x \<noteq> '' '' \<and> float_of_str x = Inl ValueError
           | _ \<Rightarrow> False)
      | _ \<Rightarrow> False)"

text \<open>A text without whitespace at either end.\<close>

definition trimmed :: "string \<Rightarrow> bool" where
  "trimmed s = (s = [] \<or> (\<not> is_space (hd s) \<and> \<not> is_space (last s)))"

text \<open>No site without data is a key of the cache.\<close>

definition outputs_disjoint :: "state \<Rightarrow> bool" where
  "outputs_disjoint st = (set (no_dv st) \<inter> fst ` set (cache st) = {})"

section \<open>Sample data\<close>

definition observation :: "string \<Rightarrow> string \<Rightarrow> json" where
  "observation v d = JObj [(''value'', JStr v), (''dateTime'', JStr d)]"

definition dv_response :: "json list \<Rightarrow> json" where
  "dv_response vals =
     JObj [(''value'', JObj [(''timeSeries'',
       JArr [JObj [(''values'', JArr [JObj [(''value'', JArr vals)]])]])])]"

definition station :: "string \<Rightarrow> string \<Rightarrow> string \<Rightarrow> json" where
  "station site b e =
     JObj [(''site_no'', JStr site), (''temp_begin'', JStr b), (''temp_end'', JStr e),
           (''lat'', JFloat (Finite 1)), (''lon'', JFloat (Finite 2))]"

definition station_x1 :: json where
  "station_x1 = station ''X1'' ''2020-01-01'' ''2020-01-02''"

text \<open>The service of the first scenario of the specification.\<close>

definition remote_scenario :: remote where
  "remote_scenario n site start end' =
     Inr (dv_response [observation ''5.5'' ''2020-01-01T00:00:00'',
                       observation [] ''2020-01-02T00:00:00''])"

text \<open>A service whose only observation has a value that is not a number.\<close>

definition remote_bad_value :: remote where
  "remote_bad_value n site start end' =
     Inr (dv_response [observation ''abc'' ''2020-01-01T00:00:00''])"

text \<open>A service that has data for the year 2020 only.\<close>

definition remote_2020 :: remote where
  "remote_2020 n site start end' =
     (if start = JStr ''2020-01-01''
      then Inr (dv_response [observation ''5.5'' ''2020-01-01T00:00:00''])
      else Inr (JObj []))"

text \<open>A service whose answer has no time series.\<close>

definition remote_no_series :: remote where
  "remote_no_series n site start end' =
     Inr (JObj [(''value'', JObj [(''timeSeries'', JArr [])])])"

text \<open>A service that cannot be reached.\<close>

definition remote_down :: remote where
  "remote_down n site start end' = Inl (URLError ''Connection refused'')"

text \<open>A stand-in for \<^verbatim>\<open>json.loads\<close> that knows the empty array only.\<close>

definition loads_empty_array :: "string \<Rightarrow> error + json" where
  "loads_empty_array s = (if s = ''[]'' then Inr (JArr []) else Inl (JSONDecodeError s))"

section \<open>Evaluation and general facts\<close>

lemmas float_defs = float_of_str_def strip_def is_space_def parse_decimal_def is_digit_def
  parse_exponent_def scale10_def digits_val_def digit_val_def lower_char_def

lemmas sample_defs = observation_def dv_response_def station_def station_x1_def
  py_get_def py_get_default_def py_or_def

lemma main_loop_append:
  "main_loop rem st (xs @ ys) =
     (case main_loop rem st xs of Inl e \<Rightarrow> Inl e | Inr st' \<Rightarrow> main_loop rem st' ys)"
  by (induction xs arbitrary: st) (auto split: sum.splits)

lemma process_station_ineligible:
  "\<not> eligible kvs \<Longrightarrow> process_station rem st (JObj kvs) = Inr st"
  by (auto simp: eligible_def process_station_def Let_def)

lemma process_station_eligible:
  assumes "eligible kvs"
  shows "process_station rem st (JObj kvs) =
     (case fetch_dv rem (requests st) (py_get kvs ''site_no'') (py_get kvs ''temp_begin'')
             (py_get kvs ''temp_end'') of
        Inl e \<Rightarrow>
          Inr (st\<lparr>stderr := stderr st @
                      [Fetching (py_get kvs ''site_no'') (py_get kvs ''temp_begin'')
                         (py_get kvs ''temp_end''),
                       ErrorFor (py_get kvs ''site_no'') e],
                   requests := Suc (requests st)\<rparr>)
      | Inr (labels, temps) \<Rightarrow>
          if labels \<noteq> []
          then (case dict_setitem (cache st) (py_get kvs ''site_no'') (labels, temps) of
                  Inl e \<Rightarrow> Inl e
                | Inr c \<Rightarrow>
                    Inr (st\<lparr>cache := c,
                             stderr := stderr st @
                               [Fetching (py_get kvs ''site_no'') (py_get kvs ''temp_begin'')
                                  (py_get kvs ''temp_end'')],
                             requests := Suc (requests st), sleeps := Suc (sleeps st)\<rparr>))
          else Inr (st\<lparr>no_dv := no_dv st @ [py_get kvs ''site_no''],
                         stderr := stderr st @
                           [Fetching (py_get kvs ''site_no'') (py_get kvs ''temp_begin'')
                              (py_get kvs ''temp_end'')],
                         requests := Suc (requests st), sleeps := Suc (sleeps st)\<rparr>))"
  using assms
  by (auto simp: eligible_def process_station_def Let_def split: sum.splits prod.splits)

lemma missing_get: "missing kvs k \<Longrightarrow> py_get kvs k = JNull"
  by (auto simp: missing_def py_get_def)

lemma py_get_Nil: "py_get [] k = JNull"
  by (simp add: py_get_def)

lemma extract_no_data:
  assumes "\<not> truthy (py_get d ''value'')
     \<or> (\<exists>v. py_get d ''value'' = JObj v \<and>
           (\<not> truthy (py_get v ''timeSeries'')
            \<or> (\<exists>t ts. py_get v ''timeSeries'' = JArr (JObj t # ts) \<and>
                  (\<not> truthy (py_get t ''values'')
                   \<or> (\<exists>w ws. py_get t ''values'' = JArr (JObj w # ws) \<and>
                         \<not> truthy (py_get w ''value''))))))"
  shows "fetch_dv_extract (JObj d) = Inr ([], [])"
  using assms
  by (auto simp: fetch_dv_extract_def py_or_def py_get_Nil)

lemma extract_observations:
  assumes "py_get d ''value'' = JObj v"
    and "py_get v ''timeSeries'' = JArr (JObj t # ts)"
    and "py_get t ''values'' = JArr (JObj w # ws)"
    and "py_get w ''value'' = JArr vals"
  shows "fetch_dv_extract (JObj d) = fetch_dv_loop vals [] []"
proof -
  from assms(2) have "v \<noteq> []" by (auto simp: py_get_Nil)
  with assms show ?thesis
    by (auto simp: fetch_dv_extract_def py_or_def)
qed

lemma loop_unparsable:
  "list_all unparsable_observation vals \<Longrightarrow>
     \<exists>ls. length ls = length vals \<and> fetch_dv_loop vals labels temps = Inr (labels @ ls, temps)"
proof (induction vals arbitrary: labels)
  case Nil
  then show ?case by simp
next
  case (Cons v vs)
  from Cons.prems obtain kvs x d where v: "v = JObj kvs" "py_get kvs ''value'' = JStr x"
    "map_of kvs ''dateTime'' = Some (JStr d)" "x \<noteq> []" "x \<noteq> '' ''" "float_of_str x = Inl ValueError"
    by (auto simp: unparsable_observation_def split: json.splits option.splits)
  from v(3) have ne: "kvs \<noteq> []" by auto
  from Cons.prems have "list_all unparsable_observation vs" by simp
  from Cons.IH [OF this, of "labels @ [JStr (take 10 d)]"]
  obtain ls where ls: "length ls = length vs"
    "fetch_dv_loop vs (labels @ [JStr (take 10 d)]) temps = Inr ((labels @ [JStr (take 10 d)]) @ ls, temps)"
    by blast
  have "fetch_dv_loop (v # vs) labels temps = Inr (labels @ (JStr (take 10 d) # ls), temps)"
    using v ne ls(2) by (simp add: py_get_default_def)
  with ls(1) show ?case
    by (intro exI [of _ "JStr (take 10 d) # ls"]) simp
qed

section \<open>The two sequences of fetch\_dv\<close>

text \<open>
  C1: an observation whose value cannot be parsed as a number is skipped entirely, so the
  two sequences that \<^verbatim>\<open>fetch_dv\<close> returns always have equal length. The code appends
  the label before it converts the value: for a response whose only observation has the
  value \<^verbatim>\<open>"abc"\<close>, \<^verbatim>\<open>fetch_dv\<close> returns one label and no value.
\<close>

theorem fetch_dv_orphan_label:
  "fetch_dv remote_bad_value 0 (JStr ''X1'') (JStr ''2020-01-01'') (JStr ''2020-01-02'')
     = Inr ([JStr ''2020-01-01''], [])"
  by (simp add: fetch_dv_def remote_bad_value_def fetch_dv_extract_def sample_defs
      float_defs Let_def)

section \<open>The scenario with one station\<close>

text \<open>
  C2: for the single station X1 (2020-01-01 to 2020-01-02, latitude 1.0, longitude 2.0)
  and a response with the observations ("5.5", "2020-01-01T00:00:00") and
  ("", "2020-01-02T00:00:00"), the cache maps X1 to the labels ["2020-01-01"] and the
  temperatures [5.5], and the list of sites without data is empty.
\<close>

theorem scenario_one_station:
  "main_loop remote_scenario init_state [station_x1] =
     Inr \<lparr>cache = [(JStr ''X1'', ([JStr ''2020-01-01''], [Finite (11 / 2)]))],
          no_dv = [],
          stderr = [Fetching (JStr ''X1'') (JStr ''2020-01-01'') (JStr ''2020-01-02'')],
          requests = 1, sleeps = 1\<rparr>"
  by (simp add: process_station_def remote_scenario_def init_state_def fetch_dv_def
      fetch_dv_extract_def dict_setitem_def sample_defs float_defs Let_def)

section \<open>The eligibility filter\<close>

text \<open>
  C3: a station record that misses the identifier, the begin date, the end date, the
  latitude or the longitude is never queried and appears neither in the cache nor in the
  list of sites without data: its turn of the loop leaves the state as it is (no request,
  no line printed, no entry), whatever the service would answer, and the run with the
  record is the run without it.
\<close>

theorem excluded_station_no_effect:
  assumes "missing kvs ''site_no'' \<or> missing kvs ''temp_begin'' \<or> missing kvs ''temp_end''
           \<or> missing kvs ''lat'' \<or> missing kvs ''lon''"
  shows "process_station rem st (JObj kvs) = Inr st
         \<and> main_loop rem st (xs @ JObj kvs # ys) = main_loop rem st (xs @ ys)"
proof -
  from assms have "\<not> eligible kvs"
    by (auto simp: eligible_def dest: missing_get)
  then have step: "process_station rem st' (JObj kvs) = Inr st'" for st'
    by (rule process_station_ineligible)
  show ?thesis
    by (simp add: step main_loop_append split: sum.splits)
qed

theorem excluded_station_no_effect_witness:
  "missing [(''site_no'', JStr ''X2''), (''lat'', JNull)] ''lat''
   \<and> process_station remote_scenario init_state
        (JObj [(''site_no'', JStr ''X2''), (''lat'', JNull)]) = Inr init_state
   \<and> main_loop remote_scenario init_state
        ([] @ JObj [(''site_no'', JStr ''X2''), (''lat'', JNull)] # [station_x1])
       = main_loop remote_scenario init_state ([] @ [station_x1])"
proof -
  have m: "missing [(''site_no'', JStr ''X2''), (''lat'', JNull)] ''lat''"
    by (simp add: missing_def)
  then have "missing [(''site_no'', JStr ''X2''), (''lat'', JNull)] ''site_no''
      \<or> missing [(''site_no'', JStr ''X2''), (''lat'', JNull)] ''temp_begin''
      \<or> missing [(''site_no'', JStr ''X2''), (''lat'', JNull)] ''temp_end''
      \<or> missing [(''site_no'', JStr ''X2''), (''lat'', JNull)] ''lat''
      \<or> missing [(''site_no'', JStr ''X2''), (''lat'', JNull)] ''lon''"
    by blast
  from excluded_station_no_effect [OF this, of remote_scenario init_state "[]" "[station_x1]"] m
  show ?thesis by blast
qed

section \<open>Responses without data\<close>

text \<open>
  C4: when the time-series container or the inner value list of a response is absent or
  empty (the field \<^verbatim>\<open>value\<close>, the field \<^verbatim>\<open>timeSeries\<close>, the field \<^verbatim>\<open>values\<close> of the
  first time series or the field \<^verbatim>\<open>value\<close> of its first element is absent, null or
  empty), \<^verbatim>\<open>fetch_dv\<close> returns two empty sequences and raises nothing, and the loop of
  \<^verbatim>\<open>main\<close> appends the identifier of the station to the list of sites without data.
\<close>

theorem no_data_response_routed:
  assumes "\<not> truthy (py_get d ''value'')
     \<or> (\<exists>v. py_get d ''value'' = JObj v \<and>
           (\<not> truthy (py_get v ''timeSeries'')
            \<or> (\<exists>t ts. py_get v ''timeSeries'' = JArr (JObj t # ts) \<and>
                  (\<not> truthy (py_get t ''values'')
                   \<or> (\<exists>w ws. py_get t ''values'' = JArr (JObj w # ws) \<and>
                         \<not> truthy (py_get w ''value''))))))"
    and "eligible kvs"
    and "rem (requests st) (py_get kvs ''site_no'') (py_get kvs ''temp_begin'')
           (py_get kvs ''temp_end'') = Inr (JObj d)"
  shows "fetch_dv rem (requests st) (py_get kvs ''site_no'') (py_get kvs ''temp_begin'')
           (py_get kvs ''temp_end'') = Inr ([], [])
         \<and> process_station rem st (JObj kvs) =
             Inr (st\<lparr>no_dv := no_dv st @ [py_get kvs ''site_no''],
                      stderr := stderr st @
                        [Fetching (py_get kvs ''site_no'') (py_get kvs ''temp_begin'')
                           (py_get kvs ''temp_end'')],
                      requests := Suc (requests st), sleeps := Suc (sleeps st)\<rparr>)"
  using assms(2,3) extract_no_data [OF assms(1)]
  by (simp add: process_station_eligible fetch_dv_def)

theorem no_data_response_routed_witness:
  "main_loop remote_no_series init_state [station_x1] =
       Inr \<lparr>cache = [], no_dv = [JStr ''X1''],
            stderr = [Fetching (JStr ''X1'') (JStr ''2020-01-01'') (JStr ''2020-01-02'')],
            requests = 1, sleeps = 1\<rparr>"
proof -
  let ?kvs = "[(''site_no'', JStr ''X1''), (''temp_begin'', JStr ''2020-01-01''),
     (''temp_end'', JStr ''2020-01-02''), (''lat'', JFloat (Finite 1)), (''lon'', JFloat (Finite 2))]"
  let ?d = "[(''value'', JObj [(''timeSeries'', JArr [])])]"
  have n: "\<not> truthy (py_get ?d ''value'')
     \<or> (\<exists>v. py_get ?d ''value'' = JObj v \<and>
           (\<not> truthy (py_get v ''timeSeries'')
            \<or> (\<exists>t ts. py_get v ''timeSeries'' = JArr (JObj t # ts) \<and>
                  (\<not> truthy (py_get t ''values'')
                   \<or> (\<exists>w ws. py_get t ''values'' = JArr (JObj w # ws) \<and>
                         \<not> truthy (py_get w ''value''))))))"
    by (simp add: py_get_def)
  have e: "eligible ?kvs"
    by (simp add: eligible_def py_get_def)
  have r: "remote_no_series (requests init_state) (py_get ?kvs ''site_no'')
      (py_get ?kvs ''temp_begin'') (py_get ?kvs ''temp_end'') = Inr (JObj ?d)"
    by (simp add: remote_no_series_def)
  from no_data_response_routed [where rem = remote_no_series and st = init_state, OF n e r]
  show ?thesis
    by (simp add: station_x1_def station_def init_state_def py_get_def)
qed

section \<open>Failed requests\<close>

text \<open>
  C5: when \<^verbatim>\<open>fetch_dv\<close> raises for an eligible station, the loop of \<^verbatim>\<open>main\<close> prints
  the station and the error, leaves the cache and the list of sites without data as
  they are, and goes on with the remaining stations: the run on the station followed by
  the rest is the run on the rest from the state with the two lines printed.
\<close>

theorem fetch_error_skipped:
  assumes "eligible kvs"
    and "fetch_dv rem (requests st) (py_get kvs ''site_no'') (py_get kvs ''temp_begin'')
           (py_get kvs ''temp_end'') = Inl err"
  shows "process_station rem st (JObj kvs) =
           Inr (st\<lparr>stderr := stderr st @
                      [Fetching (py_get kvs ''site_no'') (py_get kvs ''temp_begin'')
                         (py_get kvs ''temp_end''),
                       ErrorFor (py_get kvs ''site_no'') err],
                    requests := Suc (requests st)\<rparr>)
         \<and> main_loop rem st (JObj kvs # rest) =
             main_loop rem
               (st\<lparr>stderr := stderr st @
                      [Fetching (py_get kvs ''site_no'') (py_get kvs ''temp_begin'')
                         (py_get kvs ''temp_end''),
                       ErrorFor (py_get kvs ''site_no'') err],
                    requests := Suc (requests st)\<rparr>) rest"
  using assms by (simp add: process_station_eligible)

theorem fetch_error_skipped_witness:
  "main_loop remote_down init_state [station_x1, station ''X2'' ''2021-01-01'' ''2021-01-02''] =
     Inr \<lparr>cache = [], no_dv = [],
          stderr = [Fetching (JStr ''X1'') (JStr ''2020-01-01'') (JStr ''2020-01-02''),
                    ErrorFor (JStr ''X1'') (URLError ''Connection refused''),
                    Fetching (JStr ''X2'') (JStr ''2021-01-01'') (JStr ''2021-01-02''),
                    ErrorFor (JStr ''X2'') (URLError ''Connection refused'')],
          requests = 2, sleeps = 0\<rparr>"
proof -
  let ?kvs = "[(''site_no'', JStr ''X1''), (''temp_begin'', JStr ''2020-01-01''),
     (''temp_end'', JStr ''2020-01-02''), (''lat'', JFloat (Finite 1)), (''lon'', JFloat (Finite 2))]"
  have e: "eligible ?kvs"
    by (simp add: eligible_def py_get_def)
  have r: "fetch_dv remote_down (requests init_state) (py_get ?kvs ''site_no'')
      (py_get ?kvs ''temp_begin'') (py_get ?kvs ''temp_end'') = Inl (URLError ''Connection refused'')"
    by (simp add: remote_down_def fetch_dv_def)
  from fetch_error_skipped [where rem = remote_down and st = init_state
      and rest = "[station ''X2'' ''2021-01-01'' ''2021-01-02'']", OF e r]
  show ?thesis
    by (simp add: station_x1_def station_def init_state_def py_get_def process_station_def
        fetch_dv_def remote_down_def Let_def)
qed

section \<open>Cache or list of sites without data\<close>

text \<open>
  C9: whether a fetched station goes to the cache or to the list of sites without data
  depends on the labels alone: with a non-empty list of labels the station is stored
  in the cache, with an empty one it is appended to the list. A station whose
  observations all have a dateTime and a value that \<^verbatim>\<open>float()\<close> rejects is stored in
  the cache with one label for each observation and no temperature, and is not
  appended to the list. (The identifier is a value that can be a key of a dict.)
\<close>

theorem membership_by_labels:
  assumes "eligible kvs" and "hashable (py_get kvs ''site_no'')"
  shows "(fetch_dv rem (requests st) (py_get kvs ''site_no'') (py_get kvs ''temp_begin'')
            (py_get kvs ''temp_end'') = Inr (labels, temps) \<longrightarrow>
          process_station rem st (JObj kvs) =
            Inr (if labels \<noteq> []
                 then st\<lparr>cache := dict_update (cache st) (py_get kvs ''site_no'') (labels, temps),
                         stderr := stderr st @
                           [Fetching (py_get kvs ''site_no'') (py_get kvs ''temp_begin'')
                              (py_get kvs ''temp_end'')],
                         requests := Suc (requests st), sleeps := Suc (sleeps st)\<rparr>
                 else st\<lparr>no_dv := no_dv st @ [py_get kvs ''site_no''],
                         stderr := stderr st @
                           [Fetching (py_get kvs ''site_no'') (py_get kvs ''temp_begin'')
                              (py_get kvs ''temp_end'')],
                         requests := Suc (requests st), sleeps := Suc (sleeps st)\<rparr>))
       \<and> (rem (requests st) (py_get kvs ''site_no'') (py_get kvs ''temp_begin'')
            (py_get kvs ''temp_end'') = Inr (JObj d)
          \<and> py_get d ''value'' = JObj v
          \<and> py_get v ''timeSeries'' = JArr (JObj t # ts)
          \<and> py_get t ''values'' = JArr (JObj w # ws)
          \<and> py_get w ''value'' = JArr vals
          \<and> vals \<noteq> [] \<and> list_all unparsable_observation vals \<longrightarrow>
          (\<exists>ls. length ls = length vals \<and>
             process_station rem st (JObj kvs) =
               Inr (st\<lparr>cache := dict_update (cache st) (py_get kvs ''site_no'') (ls, []),
                        stderr := stderr st @
                          [Fetching (py_get kvs ''site_no'') (py_get kvs ''temp_begin'')
                             (py_get kvs ''temp_end'')],
                        requests := Suc (requests st), sleeps := Suc (sleeps st)\<rparr>)))"
proof (intro conjI impI)
  assume "fetch_dv rem (requests st) (py_get kvs ''site_no'') (py_get kvs ''temp_begin'')
            (py_get kvs ''temp_end'') = Inr (labels, temps)"
  with assms show "process_station rem st (JObj kvs) =
            Inr (if labels \<noteq> []
                 then st\<lparr>cache := dict_update (cache st) (py_get kvs ''site_no'') (labels, temps),
                         stderr := stderr st @
                           [Fetching (py_get kvs ''site_no'') (py_get kvs ''temp_begin'')
                              (py_get kvs ''temp_end'')],
                         requests := Suc (requests st), sleeps := Suc (sleeps st)\<rparr>
                 else st\<lparr>no_dv := no_dv st @ [py_get kvs ''site_no''],
                         stderr := stderr st @
                           [Fetching (py_get kvs ''site_no'') (py_get kvs ''temp_begin'')
                              (py_get kvs ''temp_end'')],
                         requests := Suc (requests st), sleeps := Suc (sleeps st)\<rparr>)"
    by (simp add: process_station_eligible dict_setitem_def)
next
  assume a: "rem (requests st) (py_get kvs ''site_no'') (py_get kvs ''temp_begin'')
            (py_get kvs ''temp_end'') = Inr (JObj d)
          \<and> py_get d ''value'' = JObj v
          \<and> py_get v ''timeSeries'' = JArr (JObj t # ts)
          \<and> py_get t ''values'' = JArr (JObj w # ws)
          \<and> py_get w ''value'' = JArr vals
          \<and> vals \<noteq> [] \<and> list_all unparsable_observation vals"
  then have ex: "fetch_dv_extract (JObj d) = fetch_dv_loop vals [] []"
    by (intro extract_observations) auto
  from a loop_unparsable [of vals "[]" "[]"]
  obtain ls where ls: "length ls = length vals" "fetch_dv_loop vals [] [] = Inr (ls, [])"
    by auto
  from a ls(1) have "ls \<noteq> []" by auto
  with assms a ex ls
  have "process_station rem st (JObj kvs) =
               Inr (st\<lparr>cache := dict_update (cache st) (py_get kvs ''site_no'') (ls, []),
                        stderr := stderr st @
                          [Fetching (py_get kvs ''site_no'') (py_get kvs ''temp_begin'')
                             (py_get kvs ''temp_end'')],
                        requests := Suc (requests st), sleeps := Suc (sleeps st)\<rparr>)"
    by (simp add: process_station_eligible dict_setitem_def fetch_dv_def)
  with ls(1) show "\<exists>ls. length ls = length vals \<and>
             process_station rem st (JObj kvs) =
               Inr (st\<lparr>cache := dict_update (cache st) (py_get kvs ''site_no'') (ls, []),
                        stderr := stderr st @
                          [Fetching (py_get kvs ''site_no'') (py_get kvs ''temp_begin'')
                             (py_get kvs ''temp_end'')],
                        requests := Suc (requests st), sleeps := Suc (sleeps st)\<rparr>)"
    by blast
qed

theorem membership_by_labels_witness:
  "list_all unparsable_observation [observation ''abc'' ''2020-01-01T00:00:00'']
   \<and> (\<exists>ls. length ls = 1 \<and>
         process_station remote_bad_value init_state station_x1 =
           Inr \<lparr>cache = [(JStr ''X1'', (ls, []))], no_dv = [],
                stderr = [Fetching (JStr ''X1'') (JStr ''2020-01-01'') (JStr ''2020-01-02'')],
                requests = 1, sleeps = 1\<rparr>)"
proof -
  let ?kvs = "[(''site_no'', JStr ''X1''), (''temp_begin'', JStr ''2020-01-01''),
     (''temp_end'', JStr ''2020-01-02''), (''lat'', JFloat (Finite 1)), (''lon'', JFloat (Finite 2))]"
  let ?vals = "[observation ''abc'' ''2020-01-01T00:00:00'']"
  let ?w = "[(''value'', JArr ?vals)]"
  let ?t = "[(''values'', JArr [JObj ?w])]"
  let ?v = "[(''timeSeries'', JArr [JObj ?t])]"
  let ?d = "[(''value'', JObj ?v)]"
  have e: "eligible ?kvs"
    by (simp add: eligible_def py_get_def)
  have h: "hashable (py_get ?kvs ''site_no'')"
    by (simp add: py_get_def)
  have u: "list_all unparsable_observation ?vals"
    by (simp add: unparsable_observation_def observation_def py_get_def float_defs Let_def)
  have r: "remote_bad_value (requests init_state) (py_get ?kvs ''site_no'')
      (py_get ?kvs ''temp_begin'') (py_get ?kvs ''temp_end'') = Inr (JObj ?d)"
    by (simp add: remote_bad_value_def dv_response_def)
  have p: "py_get ?d ''value'' = JObj ?v" "py_get ?v ''timeSeries'' = JArr (JObj ?t # [])"
    "py_get ?t ''values'' = JArr (JObj ?w # [])" "py_get ?w ''value'' = JArr ?vals"
    by (simp_all add: py_get_def)
  from membership_by_labels [where rem = remote_bad_value and st = init_state, OF e h,
      THEN conjunct2, rule_format, of ?d ?v ?t "[]" ?w "[]" ?vals] r p u
  show ?thesis
    by (simp add: station_x1_def station_def init_state_def py_get_def)
qed

section \<open>Labels\<close>

text \<open>
  C10: for an observation that is not skipped, whose dateTime is a str or absent, the
  label appended is the first 10 characters of the dateTime; it is the empty str when
  the field is absent and the whole str when that has at most 10 characters. Building the
  label raises nothing: the turn of the loop goes on to the conversion of the value.
\<close>

theorem label_first_ten:
  assumes "kvs \<noteq> []"
    and "py_get kvs ''value'' \<notin> {JNull, JStr [], JStr '' ''}"
    and "py_get_default kvs ''dateTime'' (JStr []) = JStr d"
  shows "fetch_dv_loop (JObj kvs # vs) labels temps =
           (case py_float (py_get kvs ''value'') of
              Inr x \<Rightarrow> fetch_dv_loop vs (labels @ [JStr (take 10 d)]) (temps @ [x])
            | Inl ValueError \<Rightarrow> fetch_dv_loop vs (labels @ [JStr (take 10 d)]) temps
            | Inl e \<Rightarrow> Inl e)
         \<and> (map_of kvs ''dateTime'' = None \<longrightarrow> d = [])
         \<and> (length d \<le> 10 \<longrightarrow> take 10 d = d)"
  using assms by (auto simp: py_get_default_def)

theorem label_first_ten_witness:
  "fetch_dv_loop [JObj [(''value'', JStr ''5.5''), (''dateTime'', JStr ''2020-01'')],
                  JObj [(''value'', JStr ''7'')]] [] []
     = Inr ([JStr ''2020-01'', JStr []], [Finite (11 / 2), Finite 7])"
proof -
  have a: "fetch_dv_loop [JObj [(''value'', JStr ''7'')]] [JStr ''2020-01''] [Finite (11 / 2)]
     = Inr ([JStr ''2020-01'', JStr []], [Finite (11 / 2), Finite 7])"
    using label_first_ten [of "[(''value'', JStr ''7'')]" "[]" "[]" "[JStr ''2020-01'']" "[Finite (11 / 2)]"]
    by (simp add: py_get_def py_get_default_def float_defs Let_def)
  show ?thesis
    using label_first_ten [of "[(''value'', JStr ''5.5''), (''dateTime'', JStr ''2020-01'')]"
        "''2020-01''" "[JObj [(''value'', JStr ''7'')]]" "[]" "[]"] a
    by (simp add: py_get_def py_get_default_def float_defs Let_def)
qed

section \<open>The loader\<close>

text \<open>
  The marker is absent exactly when \<^verbatim>\<open>find\<close> returns -1, and \<^verbatim>\<open>find\<close> returns the
  position of the first occurrence. \<^verbatim>\<open>strip\<close> removes the whitespace around a text
  that has none at its ends.
\<close>

lemma str_find_None: "str_find t p = None \<longleftrightarrow> \<not> sublist p t"
  by (induction t) (auto simp: sublist_Cons_right)

lemma prefix_overlap:
  assumes "prefix m (p @ m @ r)" and "p \<noteq> []"
  shows "prefix m (p @ butlast m)"
proof (cases "m = []")
  case True
  then show ?thesis by simp
next
  case False
  then have "p @ m @ r = (p @ butlast m) @ (last m # r)"
    by simp
  with assms(1) have "prefix m ((p @ butlast m) @ (last m # r))"
    by simp
  moreover from assms(2) False have "length m \<le> length (p @ butlast m)"
    by (cases p) auto
  ultimately show ?thesis
    by (metis prefix_append prefix_length_le prefix_order.eq_iff prefix_length_prefix prefixI)
qed

lemma str_find_first:
  assumes "\<not> sublist m (pre @ butlast m)"
  shows "str_find (pre @ m @ rest) m = Some (length pre)"
  using assms
proof (induction pre)
  case Nil
  then show ?case by (cases m) auto
next
  case (Cons c pre)
  have "\<not> prefix m ((c # pre) @ m @ rest)"
  proof
    assume "prefix m ((c # pre) @ m @ rest)"
    then have "prefix m ((c # pre) @ butlast m)"
      by (rule prefix_overlap) simp
    with Cons.prems show False
      by (auto dest: prefix_imp_sublist)
  qed
  moreover from Cons.prems have "\<not> sublist m (pre @ butlast m)"
    by (auto simp: sublist_Cons_right)
  ultimately show ?case
    using Cons.IH by simp
qed

lemma strip_shape:
  assumes "list_all is_space a" and "list_all is_space c" and "trimmed b"
  shows "strip (a @ b @ c) = b"
proof (cases "b = []")
  case True
  from assms(1,2) have "\<forall>x\<in>set (a @ c). is_space x"
    by (auto simp: list_all_iff)
  then have 1: "dropWhile is_space (a @ c) = []"
    by (simp only: dropWhile_eq_Nil_conv)
  show ?thesis
    unfolding strip_def True append_Nil 1 by simp
next
  case False
  with assms(3) have h: "\<not> is_space (hd b)" and l: "\<not> is_space (last b)"
    by (auto simp: trimmed_def)
  from assms(1) have "dropWhile is_space (a @ b @ c) = dropWhile is_space (b @ c)"
    by (auto simp: list_all_iff dropWhile_append2)
  also from False h have "\<dots> = b @ c"
    by (cases b) auto
  finally have 1: "dropWhile is_space (a @ b @ c) = b @ c" .
  from assms(2) have "dropWhile is_space (rev c @ rev b) = dropWhile is_space (rev b)"
    by (intro dropWhile_append2) (simp add: list_all_iff)
  also from False l have "\<dots> = rev b"
    by (cases "rev b") (auto simp: last_rev [symmetric] simp del: last_rev)
  finally show ?thesis
    using 1 by (simp add: strip_def)
qed

text \<open>
  C6: \<^verbatim>\<open>load_stations\<close> fails with the error of the missing marker when the marker
  does not occur in the text. Otherwise, with the marker first at the end of \<open>pre\<close>
  and followed by whitespace, a body, whitespace, one semicolon and whitespace, it
  returns what \<^verbatim>\<open>json.loads\<close> returns on the body, so an error of the parser is the
  error of the loader; the same holds when no semicolon follows the body.
\<close>

theorem load_stations_contract:
  "(\<not> sublist marker src \<longrightarrow>
      load_stations loads src =
        Inl (RuntimeError ''Could not find 'var stationData =' in multi_state_stations.js''))
   \<and> (\<not> sublist marker (pre @ butlast marker) \<and> list_all is_space ws1
        \<and> list_all is_space ws2 \<and> list_all is_space ws3 \<and> trimmed body \<longrightarrow>
      load_stations loads (pre @ marker @ ws1 @ body @ ws2 @ '';'' @ ws3) = loads body)
   \<and> (\<not> sublist marker (pre @ butlast marker) \<and> list_all is_space ws1
        \<and> list_all is_space ws3 \<and> trimmed body \<and> \<not> suffix '';'' body \<longrightarrow>
      load_stations loads (pre @ marker @ ws1 @ body @ ws3) = loads body)"
proof (intro conjI impI)
  assume "\<not> sublist marker src"
  then have "str_find src marker = None"
    by (simp add: str_find_None)
  then show "load_stations loads src =
        Inl (RuntimeError ''Could not find 'var stationData =' in multi_state_stations.js'')"
    by (simp add: load_stations_def)
next
  assume a: "\<not> sublist marker (pre @ butlast marker) \<and> list_all is_space ws1
        \<and> list_all is_space ws2 \<and> list_all is_space ws3 \<and> trimmed body"
  then have f: "str_find (pre @ marker @ ws1 @ body @ ws2 @ '';'' @ ws3) marker = Some (length pre)"
    by (intro str_find_first) simp
  have semi: "\<not> is_space CHR '';''"
    by (simp add: is_space_def)
  have "endswith (strip (ws1 @ body @ ws2 @ '';'' @ ws3)) '';''
      \<and> strip (butlast (strip (ws1 @ body @ ws2 @ '';'' @ ws3))) = body"
  proof (cases "body = []")
    case True
    have "trimmed '';''"
      using semi by (simp add: trimmed_def)
    with a have "strip ((ws1 @ ws2) @ '';'' @ ws3) = '';''"
      by (intro strip_shape) auto
    with True show ?thesis
      by (simp add: endswith_def strip_def)
  next
    case False
    with a semi have "trimmed (body @ ws2 @ '';'')"
      by (cases body) (auto simp: trimmed_def)
    with a have 1: "strip (ws1 @ (body @ ws2 @ '';'') @ ws3) = body @ ws2 @ '';''"
      by (intro strip_shape) auto
    from a have "strip ([] @ body @ ws2) = body"
      by (intro strip_shape) auto
    moreover have "butlast (body @ ws2 @ '';'') = body @ ws2"
      by (simp add: butlast_append)
    moreover have "suffix '';'' (body @ ws2 @ '';'')"
      by (metis append.assoc suffixI)
    ultimately show ?thesis
      using 1 by (simp add: endswith_def)
  qed
  with f show "load_stations loads (pre @ marker @ ws1 @ body @ ws2 @ '';'' @ ws3) = loads body"
    by (simp add: load_stations_def Let_def)
next
  assume a: "\<not> sublist marker (pre @ butlast marker) \<and> list_all is_space ws1
        \<and> list_all is_space ws3 \<and> trimmed body \<and> \<not> suffix '';'' body"
  then have f: "str_find (pre @ marker @ ws1 @ body @ ws3) marker = Some (length pre)"
    by (intro str_find_first) simp
  from a have "strip (ws1 @ body @ ws3) = body"
    by (intro strip_shape) auto
  with f a show "load_stations loads (pre @ marker @ ws1 @ body @ ws3) = loads body"
    by (simp add: load_stations_def endswith_def)
qed

theorem load_stations_contract_witness:
  "load_stations loads_empty_array ''stationData = [];'' =
     Inl (RuntimeError ''Could not find 'var stationData =' in multi_state_stations.js'')
   \<and> load_stations loads_empty_array
         (''// list '' @ marker @ '' '' @ ''[]'' @ '' '' @ '';'' @ [CHR 0x0A]) = Inr (JArr [])
   \<and> load_stations loads_empty_array ([] @ marker @ '' '' @ ''[]'' @ []) = Inr (JArr [])"
proof -
  have sp: "list_all is_space '' ''" "list_all is_space [CHR 0x0A]" "list_all is_space []"
    by (simp_all add: is_space_def)
  have tr: "trimmed ''[]''"
    by (simp add: trimmed_def is_space_def)
  have n1: "\<not> sublist marker ''stationData = [];''"
    by (simp add: str_find_None [symmetric] marker_def)
  have n2: "\<not> sublist marker (''// list '' @ butlast marker)"
    by (simp add: str_find_None [symmetric] marker_def)
  have n3: "\<not> sublist marker ([] @ butlast marker)"
    by (simp add: str_find_None [symmetric] marker_def)
  have ns: "\<not> suffix '';'' ''[]''"
    by (simp add: suffix_def)
  from load_stations_contract [where src = "''stationData = [];''" and loads = loads_empty_array
      and pre = "''// list ''" and ?ws1.0 = "'' ''" and ?ws2.0 = "'' ''"
      and ?ws3.0 = "[CHR 0x0A]" and body = "''[]''"] sp tr n1 n2
  have a: "load_stations loads_empty_array ''stationData = [];'' =
     Inl (RuntimeError ''Could not find 'var stationData =' in multi_state_stations.js'')"
    and b: "load_stations loads_empty_array
         (''// list '' @ marker @ '' '' @ ''[]'' @ '' '' @ '';'' @ [CHR 0x0A]) = Inr (JArr [])"
    by (simp_all only: loads_empty_array_def if_True simp_thms)
  from load_stations_contract [where src = "[]" and loads = loads_empty_array
      and pre = "[]" and ?ws1.0 = "'' ''" and ?ws3.0 = "[]" and body = "''[]''"] sp tr n3 ns
  have c: "load_stations loads_empty_array ([] @ marker @ '' '' @ ''[]'' @ []) = Inr (JArr [])"
    by (simp only: loads_empty_array_def if_True simp_thms)
  from a b c show ?thesis by blast
qed

section \<open>Cache and list of sites without data\<close>

text \<open>
  The keys of the cache and the sites without data, counted with repetitions, are
  among the identifiers of the eligible stations.
\<close>

lemma dict_update_keys:
  "mset (map fst (dict_update c k v)) \<subseteq># add_mset k (mset (map fst c))"
proof (induction c)
  case Nil
  then show ?case by simp
next
  case (Cons a c)
  obtain k' v' where a: "a = (k', v')" by (cases a)
  show ?case
  proof (cases "key_eq k' k")
    case True
    with a show ?thesis by simp
  next
    case False
    with a Cons.IH show ?thesis
      by (simp add: add_mset_commute)
  qed
qed

lemma process_station_sites:
  assumes "process_station rem st s = Inr st'"
  shows "mset (map fst (cache st')) + mset (no_dv st')
           \<subseteq># mset (map fst (cache st)) + mset (no_dv st) + mset (eligible_sites [s])"
proof (cases s)
  case (JObj kvs)
  show ?thesis
  proof (cases "eligible kvs")
    case False
    with assms JObj show ?thesis
      by (simp add: process_station_ineligible)
  next
    case True
    let ?site = "py_get kvs ''site_no''"
    from True JObj have es: "eligible_sites [s] = [?site]"
      by (simp add: eligible_sites_def)
    show ?thesis
    proof (cases "fetch_dv rem (requests st) ?site (py_get kvs ''temp_begin'')
        (py_get kvs ''temp_end'')")
      case (Inl e)
      with assms JObj True have "cache st' = cache st" "no_dv st' = no_dv st"
        by (auto simp: process_station_eligible)
      then show ?thesis by simp
    next
      case (Inr r)
      obtain labels temps where r: "r = (labels, temps)" by (cases r)
      show ?thesis
      proof (cases "labels = []")
        case True
        with assms JObj \<open>eligible kvs\<close> Inr r
        have "cache st' = cache st" "no_dv st' = no_dv st @ [?site]"
          by (auto simp: process_station_eligible)
        with es show ?thesis by simp
      next
        case False
        with assms JObj \<open>eligible kvs\<close> Inr r
        have "cache st' = dict_update (cache st) ?site (labels, temps)" "no_dv st' = no_dv st"
          by (auto simp: process_station_eligible dict_setitem_def split: if_splits)
        with es dict_update_keys [of "cache st" ?site "(labels, temps)"] show ?thesis
          by simp
      qed
    qed
  qed
qed (use assms in \<open>simp_all add: process_station_def\<close>)

lemma eligible_sites_append:
  "eligible_sites (xs @ ys) = eligible_sites xs @ eligible_sites ys"
  by (simp add: eligible_sites_def)

lemma main_loop_sites:
  assumes "main_loop rem st ss = Inr st'"
  shows "mset (map fst (cache st')) + mset (no_dv st')
           \<subseteq># mset (map fst (cache st)) + mset (no_dv st) + mset (eligible_sites ss)"
  using assms
proof (induction ss arbitrary: st)
  case Nil
  then show ?case by (simp add: eligible_sites_def)
next
  case (Cons s ss)
  from Cons.prems obtain st1 where 1: "process_station rem st s = Inr st1"
    and 2: "main_loop rem st1 ss = Inr st'"
    by (auto split: sum.splits)
  have e: "mset (eligible_sites (s # ss)) = mset (eligible_sites [s]) + mset (eligible_sites ss)"
    using eligible_sites_append [of "[s]" ss] by simp
  from process_station_sites [OF 1]
  have "mset (map fst (cache st1)) + mset (no_dv st1) + mset (eligible_sites ss)
      \<subseteq># mset (map fst (cache st)) + mset (no_dv st) + mset (eligible_sites [s])
          + mset (eligible_sites ss)"
    by (rule subset_mset.add_right_mono)
  with Cons.IH [OF 2]
  have "mset (map fst (cache st')) + mset (no_dv st')
      \<subseteq># mset (map fst (cache st)) + mset (no_dv st) + mset (eligible_sites [s])
          + mset (eligible_sites ss)"
    by (rule subset_mset.order_trans)
  then show ?case
    by (simp only: e add.assoc)
qed

lemma distinct_count_le_1:
  assumes "\<And>x. count (mset xs) x \<le> 1"
  shows "distinct xs"
  using assms
proof (induction xs)
  case Nil
  then show ?case by simp
next
  case (Cons a xs)
  from Cons.prems [of a] have "count (mset xs) a = 0" by simp
  then have "a \<notin> set xs"
    by (simp add: count_eq_zero_iff)
  moreover have "count (mset xs) x \<le> 1" for x
  proof -
    have "count (mset xs) x \<le> count (mset (a # xs)) x" by simp
    with Cons.prems [of x] show ?thesis by linarith
  qed
  ultimately show ?case
    using Cons.IH by simp
qed

text \<open>
  C7, as stated: for every list of stations and every service, after the run no site
  without data is a key of the cache. This fails when a site occurs twice: with one
  record for 2020, which has data, and one for 2021, which has none, X1 is a key of the
  cache and a site without data.
\<close>

theorem duplicate_site_in_both:
  "main_loop remote_2020 init_state
     [station ''X1'' ''2020-01-01'' ''2020-12-31'', station ''X1'' ''2021-01-01'' ''2021-12-31'']
   = Inr \<lparr>cache = [(JStr ''X1'', ([JStr ''2020-01-01''], [Finite (11 / 2)]))],
          no_dv = [JStr ''X1''],
          stderr = [Fetching (JStr ''X1'') (JStr ''2020-01-01'') (JStr ''2020-12-31''),
                    Fetching (JStr ''X1'') (JStr ''2021-01-01'') (JStr ''2021-12-31'')],
          requests = 2, sleeps = 2\<rparr>
   \<and> \<not> outputs_disjoint
        \<lparr>cache = [(JStr ''X1'', ([JStr ''2020-01-01''], [Finite (11 / 2)]))],
         no_dv = [JStr ''X1''],
         stderr = [Fetching (JStr ''X1'') (JStr ''2020-01-01'') (JStr ''2020-12-31''),
                   Fetching (JStr ''X1'') (JStr ''2021-01-01'') (JStr ''2021-12-31'')],
         requests = 2, sleeps = 2\<rparr>"
  by (simp add: process_station_def remote_2020_def init_state_def fetch_dv_def
      fetch_dv_extract_def dict_setitem_def sample_defs float_defs Let_def outputs_disjoint_def)

text \<open>
  C7, amended: when the identifiers of the eligible stations are pairwise distinct, after
  the run no site without data is a key of the cache, and the keys of the cache are
  pairwise distinct, for every service.
\<close>

theorem outputs_disjoint_distinct_sites:
  assumes "distinct (eligible_sites ss)" and "main_loop rem init_state ss = Inr st"
  shows "outputs_disjoint st \<and> distinct (map fst (cache st))"
proof -
  from main_loop_sites [OF assms(2)]
  have sub: "mset (map fst (cache st)) + mset (no_dv st) \<subseteq># mset (eligible_sites ss)"
    by (simp add: init_state_def)
  have le: "count (mset (map fst (cache st))) x + count (mset (no_dv st)) x \<le> 1" for x
  proof -
    from sub have "count (mset (map fst (cache st)) + mset (no_dv st)) x
        \<le> count (mset (eligible_sites ss)) x"
      by (rule mset_subset_eq_count)
    also from assms(1) have "\<dots> \<le> 1"
      by (simp add: distinct_count_atmost_1)
    finally show ?thesis by simp
  qed
  have "distinct (map fst (cache st))"
  proof (rule distinct_count_le_1)
    fix x
    from le [of x] show "count (mset (map fst (cache st))) x \<le> 1" by simp
  qed
  moreover have "outputs_disjoint st"
    unfolding outputs_disjoint_def
  proof (rule ccontr)
    assume "set (no_dv st) \<inter> fst ` set (cache st) \<noteq> {}"
    then obtain x where "x \<in> set (no_dv st)" "x \<in> set (map fst (cache st))"
      by auto
    then have "1 \<le> count (mset (no_dv st)) x" "1 \<le> count (mset (map fst (cache st))) x"
      by (simp_all add: Suc_le_eq)
    with le [of x] show False by linarith
  qed
  ultimately show ?thesis by simp
qed

theorem outputs_disjoint_distinct_sites_witness:
  "distinct (eligible_sites
      [station ''X1'' ''2020-01-01'' ''2020-12-31'', station ''X2'' ''2021-01-01'' ''2021-12-31''])
   \<and> outputs_disjoint
        \<lparr>cache = [(JStr ''X1'', ([JStr ''2020-01-01''], [Finite (11 / 2)]))],
         no_dv = [JStr ''X2''],
         stderr = [Fetching (JStr ''X1'') (JStr ''2020-01-01'') (JStr ''2020-12-31''),
                   Fetching (JStr ''X2'') (JStr ''2021-01-01'') (JStr ''2021-12-31'')],
         requests = 2, sleeps = 2\<rparr>"
proof -
  let ?ss = "[station ''X1'' ''2020-01-01'' ''2020-12-31'', station ''X2'' ''2021-01-01'' ''2021-12-31'']"
  have d: "distinct (eligible_sites ?ss)"
    by (simp add: eligible_sites_def eligible_def station_def py_get_def)
  have m: "main_loop remote_2020 init_state ?ss =
     Inr \<lparr>cache = [(JStr ''X1'', ([JStr ''2020-01-01''], [Finite (11 / 2)]))],
         no_dv = [JStr ''X2''],
         stderr = [Fetching (JStr ''X1'') (JStr ''2020-01-01'') (JStr ''2020-12-31''),
                   Fetching (JStr ''X2'') (JStr ''2021-01-01'') (JStr ''2021-12-31'')],
         requests = 2, sleeps = 2\<rparr>"
    by (simp add: process_station_def remote_2020_def init_state_def fetch_dv_def
      fetch_dv_extract_def dict_setitem_def sample_defs float_defs Let_def)
  from outputs_disjoint_distinct_sites [OF d m] d show ?thesis
    by blast
qed

end
